theory Spec2Isabelle
  imports Main "HOL-Library.AList"
begin

section \<open>Data model\<close>

text \<open>
  Identifiers are UUIDs in the source (\<^verbatim>\<open>UUID(as_uuid=True)\<close>); they are opaque values
  that are only compared for equality, and are modelled as natural numbers. A UUID object
  is always truthy in Python, so \<^verbatim>\<open>if taxpayer.employer_id\<close> only tests for \<^verbatim>\<open>None\<close>.
  Dates and timestamps are natural numbers as well.
\<close>

type_synonym uuid = nat

text \<open>\<^verbatim>\<open>api/v1/models/user.py\<close>: \<^verbatim>\<open>UserRole\<close>.\<close>

datatype user_role = ADMIN | ACCOUNTANT | EMPLOYER | ORGANIZATION

text \<open>\<^verbatim>\<open>api/v1/models/taxpayer.py\<close>: \<^verbatim>\<open>TaxType\<close>, \<^verbatim>\<open>TaxpayerStatus\<close>, \<^verbatim>\<open>NigerianState\<close>.\<close>

datatype tax_type = PAYE | VAT | CIT | WHT | PIT

datatype taxpayer_status = ACTIVE | INACTIVE | PENDING | SUSPENDED | DELETED

datatype nigerian_state =
    ABIA | ADAMAWA | AKWA_IBOM | ANAMBRA | BAUCHI | BAYELSA | BENUE | BORNO | CROSS_RIVER
  | DELTA | EBONYI | EDO | EKITI | ENUGU | FCT | GOMBE | IMO | JIGAWA | KADUNA | KANO
  | KATSINA | KEBBI | KOGI | KWARA | LAGOS | NASARAWA | NIGER | OGUN | ONDO | OSUN | OYO
  | PLATEAU | RIVERS | SOKOTO | TARABA | YOBE | ZAMFARA

text \<open>
  JSON values held in \<^verbatim>\<open>JSONB\<close> columns and \<^verbatim>\<open>Dict[str, Any]\<close> fields. A Python dict is an
  association list with distinct keys, in insertion order.
\<close>

datatype json = JNull | JBool bool | JInt int | JStr string | JDict "(string \<times> json) list"

type_synonym dict = "(string \<times> json) list"

text \<open>
  The exceptions the modelled code raises. Only the exception class is kept; the message
  text (an f-string in most places) is dropped. \<open>HTTPException c\<close> carries the status code.
  The last seven are raised by Python and the libraries, not by a \<^verbatim>\<open>raise\<close> of the source:
  \<^item> \<open>MultipleResultsFound\<close>: \<^verbatim>\<open>scalar_one_or_none()\<close> on more than one row;
  \<^item> \<open>TypeError\<close>: \<^verbatim>\<open>dict.update(None)\<close>, and item assignment on an object that has none;
  \<^item> \<open>AttributeError\<close>: a method the object does not have;
  \<^item> \<open>StatementError\<close>: a flush whose \<^verbatim>\<open>JSONB\<close> parameter \<^verbatim>\<open>json.dumps\<close> cannot serialize;
  \<^item> \<open>PendingRollbackError\<close>: any database call on a session whose flush has failed and
    that has not been rolled back;
  \<^item> \<open>ValidationError\<close>: \<^verbatim>\<open>model_validate\<close> on an attribute of the wrong type.
\<close>

datatype error =
    ConflictException | BadRequestException | ForbiddenException | NotFoundException
  | UnauthorizedException | HTTPException nat | MultipleResultsFound | TypeError
  | AttributeError | StatementError | PendingRollbackError | ValidationError

text \<open>\<^verbatim>\<open>User\<close> (\<^verbatim>\<open>api/v1/models/user.py\<close>); \<open>uid\<close> is the \<^verbatim>\<open>id\<close> column.\<close>

record user =
  uid :: uuid
  user_email :: string
  password_hash :: string
  role :: user_role
  organization_id :: "uuid option"
  is_active :: bool

text \<open>
  What reading \<^verbatim>\<open>taxpayer.metadata\<close> gives. \<^verbatim>\<open>Taxpayer\<close> declares no column of that name
  (the extension map is the column \<^verbatim>\<open>extra_data\<close>, line 102), and on a declarative class
  \<^verbatim>\<open>metadata\<close> is the table registry (\<^verbatim>\<open>Base.metadata\<close>, as \<^verbatim>\<open>main.py\<close> uses it). An object
  built by the constructor with a \<^verbatim>\<open>metadata\<close> keyword, or assigned to, has an instance
  attribute \<open>Attr v\<close>; an object loaded from the store has none, and the read gives the
  \<open>Registry\<close>: a truthy object that is no dict, has no \<^verbatim>\<open>copy\<close> and takes no item
  assignment.
\<close>

datatype py_metadata = Registry | Attr "dict option"

text \<open>
  \<^verbatim>\<open>Taxpayer\<close> (\<^verbatim>\<open>api/v1/models/taxpayer.py\<close>), restricted to the columns the modelled
  operations read or write, together with the \<^verbatim>\<open>metadata\<close> attribute of the in-memory
  object. \<open>status\<close> is a nullable column.
\<close>

record taxpayer =
  taxpayer_id :: uuid
  full_name :: "string option"
  tin :: "string option"
  email :: "string option"
  state :: nigerian_state
  tax_type :: tax_type
  business_name :: "string option"
  employer_id :: "uuid option"
  employment_date :: "nat option"
  status :: "taxpayer_status option"
  is_verified :: bool
  verification_date :: "nat option"
  extra_data :: dict
  metadata :: py_metadata
  created_by :: "uuid option"
  updated_by :: "uuid option"
  created_at :: nat

text \<open>\<^verbatim>\<open>TaxpayerCreate\<close> (\<^verbatim>\<open>api/v1/schemas/taxpayer.py\<close>).\<close>

record taxpayer_create =
  c_full_name :: string
  c_tin :: "string option"
  c_email :: "string option"
  c_state :: nigerian_state
  c_tax_type :: tax_type
  c_business_name :: "string option"
  c_employment_date :: "nat option"
  c_metadata :: "dict option"
  c_employer_id :: "uuid option"

text \<open>
  \<^verbatim>\<open>TaxpayerUpdate\<close> after \<^verbatim>\<open>model_dump(exclude_unset=True)\<close>: each field is either unset
  (\<open>None\<close>) or set to a value, which may itself be \<^verbatim>\<open>None\<close> (\<open>Some None\<close>). The fields
  kept are those of the audited snapshot and the date; the remaining fields of the schema
  are strings and an enum that go through the same \<^verbatim>\<open>setattr\<close> loop, and are left out.
\<close>

record taxpayer_update =
  u_full_name :: "string option option"
  u_email :: "string option option"
  u_employment_date :: "nat option option"
  u_status :: "taxpayer_status option option"
  u_metadata :: "dict option option"

text \<open>\<^verbatim>\<open>TaxpayerFilter\<close> (\<^verbatim>\<open>api/v1/schemas/taxpayer.py\<close>).\<close>

record taxpayer_filter =
  f_state :: "nigerian_state option"
  f_tax_type :: "tax_type option"
  f_status :: "taxpayer_status option"
  f_employer_id :: "uuid option"
  f_is_verified :: "bool option"
  f_search :: "string option"
  f_created_after :: "nat option"
  f_created_before :: "nat option"

text \<open>The \<^verbatim>\<open>details\<close> payload of an audit entry, one constructor per call site.\<close>

datatype audit_details =
    CreateData taxpayer_create
  | UpdateData "string option" "string option" "taxpayer_status option" dict taxpayer_update
  | Reason string
  | VerifyData dict

text \<open>\<^verbatim>\<open>AuditLog\<close> (\<^verbatim>\<open>api/v1/models/audit_log.py\<close>).\<close>

record audit_log =
  user_id :: uuid
  entity_type :: string
  entity_id :: uuid
  action :: string
  details :: audit_details

text \<open>\<^verbatim>\<open>LoginRequest\<close> (\<^verbatim>\<open>api/v1/schemas/user.py\<close>).\<close>

record login_request =
  l_email :: string
  l_password :: string

section \<open>The database session\<close>

text \<open>
  The state of one \<^verbatim>\<open>AsyncSession\<close> over the store.
  \<^item> \<open>committed\<close> is the durable taxpayer table; \<open>taxpayers\<close> is the table as the session's
    open transaction sees it, that is with the rows added, changed and deleted since the
    last commit. \<^verbatim>\<open>db.commit()\<close> makes the second the first, \<^verbatim>\<open>db.rollback()\<close> the reverse.
  \<^item> \<open>audit_logs\<close> is the durable audit table; \<open>pending\<close> holds the audit entries that were
    added and flushed into the open transaction but not committed.
  \<^item> \<open>users\<close> and \<open>organizations\<close> are tables the modelled operations only read.
  \<^item> \<open>commits\<close> counts the completed calls of \<^verbatim>\<open>db.commit()\<close> and \<open>audit_written\<close> the
    audit entries that \<^verbatim>\<open>AuditService.log_action\<close> flushed.
  \<^item> \<open>next_id\<close> supplies the primary key of the next taxpayer row and \<open>clock\<close> the
    current time.
\<close>

record db =
  taxpayers :: "taxpayer list"
  committed :: "taxpayer list"
  users :: "user list"
  organizations :: "uuid list"
  audit_logs :: "audit_log list"
  pending :: "audit_log list"
  commits :: nat
  audit_written :: nat
  next_id :: uuid
  clock :: nat

text \<open>
  A session is \<open>Active\<close>, or \<open>Inactive\<close> after a flush has failed: the failed flush rolls the
  transaction back, and from then on every database call of the session (query, flush,
  commit) raises \<^verbatim>\<open>PendingRollbackError\<close> until \<^verbatim>\<open>rollback()\<close> is called. The operations
  below take the state of an active session.
\<close>

datatype session = Active db | Inactive db

definition session_db :: "session \<Rightarrow> db" where
  "session_db s = (case s of Active d \<Rightarrow> d | Inactive d \<Rightarrow> d)"

text \<open>\<^verbatim>\<open>Result.scalar_one_or_none()\<close>: no row, the one row, or an exception.\<close>

fun scalar_one_or_none :: "'a list \<Rightarrow> error + 'a option" where
  "scalar_one_or_none [] = Inr None"
| "scalar_one_or_none [x] = Inr (Some x)"
| "scalar_one_or_none (x # y # zs) = Inl MultipleResultsFound"

definition commit :: "db \<Rightarrow> db" where
  "commit d = d\<lparr>committed := taxpayers d, audit_logs := audit_logs d @ pending d,
                pending := [], commits := Suc (commits d)\<rparr>"

definition rollback :: "db \<Rightarrow> db" where
  "rollback d = d\<lparr>taxpayers := committed d, pending := []\<rparr>"

text \<open>
  \<^verbatim>\<open>session.close()\<close>, which \<^verbatim>\<open>get_db\<close> (\<^verbatim>\<open>api/db/session.py\<close>) runs when a request ends: the
  open transaction is discarded, and so are the session's objects. What is left is the
  store; a later session loads its rows as objects without a \<^verbatim>\<open>metadata\<close> attribute.
\<close>

definition detach :: "taxpayer \<Rightarrow> taxpayer" where
  "detach t = t\<lparr>metadata := Registry\<rparr>"

definition close :: "session \<Rightarrow> db" where
  "close s = (rollback (session_db s))
               \<lparr>taxpayers := map detach (committed (session_db s)),
                committed := map detach (committed (session_db s))\<rparr>"

section \<open>Audit logger\<close>

text \<open>
  Whether \<^verbatim>\<open>json.dumps\<close> can serialize the \<^verbatim>\<open>details\<close> of an entry. \<^verbatim>\<open>model_dump()\<close> keeps a
  \<^verbatim>\<open>uuid.UUID\<close> and a \<^verbatim>\<open>date\<close> as Python objects, which it cannot; strings, string enums,
  numbers, \<^verbatim>\<open>None\<close> and dicts of them it can.
\<close>

definition json_serializable :: "audit_details \<Rightarrow> bool" where
  "json_serializable det =
     (case det of
        CreateData x \<Rightarrow> c_employer_id x = None \<and> c_employment_date x = None
      | UpdateData n e s m p \<Rightarrow>
          (case u_employment_date p of Some (Some dt) \<Rightarrow> False | _ \<Rightarrow> True)
      | Reason r \<Rightarrow> True
      | VerifyData v \<Rightarrow> True)"

text \<open>
  \<^verbatim>\<open>AuditService.log_action\<close>: \<^verbatim>\<open>db.add\<close> and \<^verbatim>\<open>db.flush()\<close>, no commit. The request
  context fields are \<^verbatim>\<open>None\<close> at every call site and are left out. When the details
  cannot be serialized the flush raises (the result is \<open>Inactive\<close>, and the callers raise
  \<^verbatim>\<open>StatementError\<close>): the open transaction is rolled back and the session left inactive.
\<close>

definition log_action :: "db \<Rightarrow> uuid \<Rightarrow> string \<Rightarrow> uuid \<Rightarrow> string \<Rightarrow> audit_details \<Rightarrow> session" where
  "log_action d usr etype eid act det =
     (if json_serializable det then
        Active (d\<lparr>pending := pending d @
                 [\<lparr>user_id = usr, entity_type = etype, entity_id = eid, action = act,
                   details = det\<rparr>],
               audit_written := Suc (audit_written d)\<rparr>)
      else Inactive (rollback d))"

section \<open>Identity service\<close>

text \<open>
  \<^verbatim>\<open>AuthService.authenticate_user\<close>. \<open>verify_password\<close> is \<^verbatim>\<open>core.security.verify_password\<close>,
  which is not part of the sources and is taken as a parameter.
\<close>

definition authenticate_user ::
  "(string \<Rightarrow> string \<Rightarrow> bool) \<Rightarrow> db \<Rightarrow> login_request \<Rightarrow> error + user option" where
  "authenticate_user verify_password d login_data =
     (case scalar_one_or_none (filter (\<lambda>u. user_email u = l_email login_data) (users d)) of
        Inl e \<Rightarrow> Inl e
      | Inr None \<Rightarrow> Inr None
      | Inr (Some usr) \<Rightarrow>
          if \<not> verify_password (l_password login_data) (password_hash usr) then Inr None
          else if \<not> is_active usr then Inl UnauthorizedException
          else Inr (Some usr))"

text \<open>\<^verbatim>\<open>AuthService.require_role\<close>.\<close>

definition require_role :: "user \<Rightarrow> user_role list \<Rightarrow> error + unit" where
  "require_role usr required_roles =
     (if role usr \<notin> set required_roles then Inl ForbiddenException else Inr ())"

section \<open>Taxpayer service: permission check\<close>

text \<open>
  \<^verbatim>\<open>TaxpayerService._check_permissions\<close>. The action name only appears in the message.
  Python compares the two optional references with \<^verbatim>\<open>!=\<close>, so \<^verbatim>\<open>None\<close> equals \<^verbatim>\<open>None\<close>.
\<close>

definition check_permissions :: "taxpayer \<Rightarrow> user \<Rightarrow> string \<Rightarrow> error + unit" where
  "check_permissions t current_user act =
     (if role current_user = ADMIN then Inr ()
      else if role current_user \<in> {ACCOUNTANT, EMPLOYER}
              \<and> employer_id t \<noteq> organization_id current_user then Inl ForbiddenException
      else if role current_user = ORGANIZATION then Inl ForbiddenException
      else Inr ())"

section \<open>Taxpayer service: lookups\<close>

text \<open>\<^verbatim>\<open>TaxpayerService.get_by_id\<close>, \<^verbatim>\<open>TaxpayerService.get_by_tin\<close>, \<^verbatim>\<open>OrganizationService.get_by_id\<close>.\<close>

definition get_by_id :: "db \<Rightarrow> uuid \<Rightarrow> error + taxpayer option" where
  "get_by_id d tid = scalar_one_or_none (filter (\<lambda>t. taxpayer_id t = tid) (taxpayers d))"

definition get_by_tin :: "db \<Rightarrow> string \<Rightarrow> error + taxpayer option" where
  "get_by_tin d n = scalar_one_or_none (filter (\<lambda>t. tin t = Some n) (taxpayers d))"

definition organization_get_by_id :: "db \<Rightarrow> uuid \<Rightarrow> error + uuid option" where
  "organization_get_by_id d oid = scalar_one_or_none (filter (\<lambda>x. x = oid) (organizations d))"

text \<open>Python truthiness of an optional string and of an optional dict.\<close>

definition truthy_str :: "string option \<Rightarrow> bool" where
  "truthy_str s = (case s of None \<Rightarrow> False | Some x \<Rightarrow> x \<noteq> [])"

definition truthy_dict :: "dict option \<Rightarrow> bool" where
  "truthy_dict m = (case m of None \<Rightarrow> False | Some x \<Rightarrow> x \<noteq> [])"

section \<open>Taxpayer service: create\<close>

text \<open>
  The store enforces the unique index on \<^verbatim>\<open>tin\<close> (\<^verbatim>\<open>unique=True, nullable=True\<close>) when the
  insert is flushed: a second row with the same non-null value is an \<^verbatim>\<open>IntegrityError\<close>.
\<close>

definition tin_conflict :: "taxpayer list \<Rightarrow> string option \<Rightarrow> bool" where
  "tin_conflict rows n = (n \<noteq> None \<and> n \<in> set (map tin rows))"

text \<open>The object built by \<^verbatim>\<open>Taxpayer(**taxpayer_data.model_dump(...), created_by=..., updated_by=...)\<close>
  and the column defaults. The request's map goes into the \<^verbatim>\<open>metadata\<close> attribute.\<close>

definition new_taxpayer :: "db \<Rightarrow> taxpayer_create \<Rightarrow> user \<Rightarrow> taxpayer" where
  "new_taxpayer d taxpayer_data current_user =
     \<lparr>taxpayer_id = next_id d,
      full_name = Some (c_full_name taxpayer_data),
      tin = c_tin taxpayer_data,
      email = c_email taxpayer_data,
      state = c_state taxpayer_data,
      tax_type = c_tax_type taxpayer_data,
      business_name = c_business_name taxpayer_data,
      employer_id = c_employer_id taxpayer_data,
      employment_date = c_employment_date taxpayer_data,
      status = Some PENDING,
      is_verified = False,
      verification_date = None,
      extra_data = [],
      metadata = Attr (c_metadata taxpayer_data),
      created_by = Some (uid current_user),
      updated_by = Some (uid current_user),
      created_at = clock d\<rparr>"

text \<open>The checks of \<^verbatim>\<open>create\<close> before the \<^verbatim>\<open>try\<close> block (lines 60-86).\<close>

definition check_tin :: "db \<Rightarrow> taxpayer_create \<Rightarrow> error + unit" where
  "check_tin d taxpayer_data =
     (if truthy_str (c_tin taxpayer_data) then
        (case get_by_tin d (the (c_tin taxpayer_data)) of
           Inl e \<Rightarrow> Inl e
         | Inr (Some existing) \<Rightarrow> Inl ConflictException
         | Inr None \<Rightarrow> Inr ())
      else Inr ())"

definition check_employer :: "db \<Rightarrow> taxpayer_create \<Rightarrow> user \<Rightarrow> error + unit" where
  "check_employer d taxpayer_data current_user =
     (case c_employer_id taxpayer_data of
        None \<Rightarrow> Inr ()
      | Some eid \<Rightarrow>
          (case organization_get_by_id d eid of
             Inl e \<Rightarrow> Inl e
           | Inr None \<Rightarrow> Inl BadRequestException
           | Inr (Some employer) \<Rightarrow>
               if organization_id current_user \<noteq> Some eid \<and> role current_user \<noteq> ADMIN
               then Inl ForbiddenException else Inr ()))"

text \<open>
  \<^verbatim>\<open>TaxpayerService.create\<close>. In the \<^verbatim>\<open>try\<close> block the row is added and committed
  (lines 89-90) and only then is the audit entry written by \<^verbatim>\<open>log_action\<close> (lines 94-101),
  which flushes without committing. A unique violation at the commit is rolled back and
  raised as \<^verbatim>\<open>ConflictException\<close> (lines 104-107). The details of the audit entry are
  \<^verbatim>\<open>taxpayer_data.model_dump()\<close>; when the flush cannot serialize them the
  \<^verbatim>\<open>StatementError\<close> is not an \<^verbatim>\<open>IntegrityError\<close> and leaves \<^verbatim>\<open>create\<close> uncaught, after the commit.
\<close>

definition create :: "db \<Rightarrow> taxpayer_create \<Rightarrow> user \<Rightarrow> (error + taxpayer) \<times> session" where
  "create d taxpayer_data current_user =
     (case check_tin d taxpayer_data of
        Inl e \<Rightarrow> (Inl e, Active d)
      | Inr _ \<Rightarrow>
     (case check_employer d taxpayer_data current_user of
        Inl e \<Rightarrow> (Inl e, Active d)
      | Inr _ \<Rightarrow>
          if tin_conflict (taxpayers d) (c_tin taxpayer_data)
          then (Inl ConflictException, Active (rollback d))
          else
            let db_taxpayer = new_taxpayer d taxpayer_data current_user;
                d1 = commit (d\<lparr>taxpayers := taxpayers d @ [db_taxpayer], next_id := Suc (next_id d)\<rparr>)
            in (case log_action d1 (uid current_user) ''taxpayer'' (taxpayer_id db_taxpayer)
                       ''create'' (CreateData taxpayer_data) of
                  Active d2 \<Rightarrow> (Inr db_taxpayer, Active d2)
                | Inactive d2 \<Rightarrow> (Inl StatementError, Inactive d2))))"

section \<open>Taxpayer service: update and delete\<close>

text \<open>\<^verbatim>\<open>dict.update(other)\<close>: every item of \<open>other\<close> is stored into the dict, in order.\<close>

definition dict_update :: "dict \<Rightarrow> dict \<Rightarrow> dict" where
  "dict_update self other = fold (\<lambda>(k, v). AList.update k v) other self"

text \<open>Writing back the modified object: the row with that primary key is replaced.\<close>

definition store_row :: "taxpayer \<Rightarrow> taxpayer list \<Rightarrow> taxpayer list" where
  "store_row t rows = map (\<lambda>r. if taxpayer_id r = taxpayer_id t then t else r) rows"

text \<open>
  Lines 136-139 of \<^verbatim>\<open>update\<close>, for an object whose \<^verbatim>\<open>metadata\<close> attribute holds \<open>m\<close>: when the
  patch has a \<^verbatim>\<open>metadata\<close> key and \<open>m\<close> is truthy, the patch value is merged into it and
  removed from the patch.
\<close>

definition merge_metadata ::
  "taxpayer \<Rightarrow> dict option \<Rightarrow> taxpayer_update \<Rightarrow> error + taxpayer \<times> taxpayer_update" where
  "merge_metadata t m update_dict =
     (case u_metadata update_dict of
        None \<Rightarrow> Inr (t, update_dict)
      | Some v \<Rightarrow>
          if truthy_dict m then
            (case v of
               None \<Rightarrow> Inl TypeError
             | Some other \<Rightarrow>
                 Inr (t\<lparr>metadata := Attr (Some (dict_update (the m) other))\<rparr>,
                      update_dict\<lparr>u_metadata := None\<rparr>))
          else Inr (t, update_dict))"

text \<open>Lines 141-142: \<^verbatim>\<open>setattr(taxpayer, field, value)\<close> for every field left in the patch.\<close>

definition set_fields :: "taxpayer \<Rightarrow> taxpayer_update \<Rightarrow> taxpayer" where
  "set_fields t update_dict =
     (let t1 = (case u_full_name update_dict of None \<Rightarrow> t | Some v \<Rightarrow> t\<lparr>full_name := v\<rparr>);
          t2 = (case u_email update_dict of None \<Rightarrow> t1 | Some v \<Rightarrow> t1\<lparr>email := v\<rparr>);
          t3 = (case u_employment_date update_dict of
                  None \<Rightarrow> t2 | Some v \<Rightarrow> t2\<lparr>employment_date := v\<rparr>);
          t4 = (case u_status update_dict of None \<Rightarrow> t3 | Some v \<Rightarrow> t3\<lparr>status := v\<rparr>);
          t5 = (case u_metadata update_dict of None \<Rightarrow> t4 | Some v \<Rightarrow> t4\<lparr>metadata := Attr v\<rparr>)
      in t5)"

text \<open>
  \<^verbatim>\<open>TaxpayerService.update\<close>. Line 130 calls \<^verbatim>\<open>taxpayer.metadata.copy()\<close> when the attribute
  is truthy: on an object loaded from the store that is the registry, which has no
  \<^verbatim>\<open>copy\<close>. The commit fails with an \<^verbatim>\<open>IntegrityError\<close> when the patch set the non-nullable
  \<^verbatim>\<open>full_name\<close> to \<^verbatim>\<open>None\<close>; the transaction is rolled back and \<^verbatim>\<open>BadRequestException\<close>
  raised. The audit entry is written after the commit.
\<close>

definition update :: "db \<Rightarrow> uuid \<Rightarrow> taxpayer_update \<Rightarrow> user \<Rightarrow> (error + taxpayer) \<times> session" where
  "update d tid update_data current_user =
     (case get_by_id d tid of
        Inl e \<Rightarrow> (Inl e, Active d)
      | Inr None \<Rightarrow> (Inl NotFoundException, Active d)
      | Inr (Some t) \<Rightarrow>
     (case check_permissions t current_user ''update'' of
        Inl e \<Rightarrow> (Inl e, Active d)
      | Inr _ \<Rightarrow>
     (case metadata t of
        Registry \<Rightarrow> (Inl AttributeError, Active d)
      | Attr m \<Rightarrow>
     (case merge_metadata t m update_data of
        Inl e \<Rightarrow> (Inl e, Active d)
      | Inr (tm, update_dict) \<Rightarrow>
          let original_metadata = (if truthy_dict m then the m else []);
              t' = (set_fields tm update_dict)\<lparr>updated_by := Some (uid current_user)\<rparr>
          in if full_name t' = None then (Inl BadRequestException, Active (rollback d))
             else
               let d1 = commit (d\<lparr>taxpayers := store_row t' (taxpayers d)\<rparr>)
               in (case log_action d1 (uid current_user) ''taxpayer'' (taxpayer_id t') ''update''
                          (UpdateData (full_name t) (email t) (status t) original_metadata
                             update_dict) of
                     Active d2 \<Rightarrow> (Inr t', Active d2)
                   | Inactive d2 \<Rightarrow> (Inl StatementError, Inactive d2))))))"

text \<open>\<^verbatim>\<open>TaxpayerService.delete\<close>: the audit entry is written before the single commit.\<close>

definition delete :: "db \<Rightarrow> uuid \<Rightarrow> user \<Rightarrow> bool \<Rightarrow> (error + unit) \<times> session" where
  "delete d tid current_user soft_delete =
     (case get_by_id d tid of
        Inl e \<Rightarrow> (Inl e, Active d)
      | Inr None \<Rightarrow> (Inl NotFoundException, Active d)
      | Inr (Some t) \<Rightarrow>
     (case check_permissions t current_user ''delete'' of
        Inl e \<Rightarrow> (Inl e, Active d)
      | Inr _ \<Rightarrow>
          if soft_delete then
            let t' = t\<lparr>status := Some DELETED, updated_by := Some (uid current_user)\<rparr>;
                d1 = d\<lparr>taxpayers := store_row t' (taxpayers d)\<rparr>
            in (case log_action d1 (uid current_user) ''taxpayer'' (taxpayer_id t) ''soft_delete''
                       (Reason ''User requested deletion'') of
                  Active d2 \<Rightarrow> (Inr (), Active (commit d2))
                | Inactive d2 \<Rightarrow> (Inl StatementError, Inactive d2))
          else
            let d1 = d\<lparr>taxpayers := filter (\<lambda>r. taxpayer_id r \<noteq> taxpayer_id t) (taxpayers d)\<rparr>
            in (case log_action d1 (uid current_user) ''taxpayer'' tid ''hard_delete''
                       (Reason ''Permanent deletion requested'') of
                  Active d2 \<Rightarrow> (Inr (), Active (commit d2))
                | Inactive d2 \<Rightarrow> (Inl StatementError, Inactive d2))))"

section \<open>Taxpayer service: list\<close>

text \<open>
  \<^verbatim>\<open>TaxpayerService._apply_filters\<close>, as the predicate the composed \<^verbatim>\<open>WHERE\<close> clauses select by.
  \<open>base_permission\<close> is the permission filter of lines 245-249. A comparison with a \<^verbatim>\<open>NULL\<close>
  column is not true in SQL, so \<^verbatim>\<open>status != DELETED\<close> drops rows without a status, and a
  comparison with a Python \<^verbatim>\<open>None\<close> is rendered as \<^verbatim>\<open>IS NULL\<close>. \<open>ilike\<close> is the store's
  case-insensitive match of a column value against \<^verbatim>\<open>%search%\<close>, taken as a parameter.
  Rows that tie on \<^verbatim>\<open>created_at\<close> come in an order SQL leaves open; the model fixes one,
  and nothing proved below depends on it.
\<close>

definition base_permission :: "user \<Rightarrow> taxpayer \<Rightarrow> bool" where
  "base_permission current_user t =
     (if role current_user \<noteq> ADMIN then
        (if role current_user \<in> {ACCOUNTANT, EMPLOYER}
         then employer_id t = organization_id current_user else True)
      else True)"

definition column_ilike :: "(string \<Rightarrow> string \<Rightarrow> bool) \<Rightarrow> string \<Rightarrow> string option \<Rightarrow> bool" where
  "column_ilike ilike pat c = (case c of None \<Rightarrow> False | Some v \<Rightarrow> ilike pat v)"

definition user_filters ::
  "(string \<Rightarrow> string \<Rightarrow> bool) \<Rightarrow> taxpayer_filter \<Rightarrow> taxpayer \<Rightarrow> bool" where
  "user_filters ilike filter_data t =
     ((case f_state filter_data of None \<Rightarrow> True | Some s \<Rightarrow> state t = s)
    \<and> (case f_tax_type filter_data of None \<Rightarrow> True | Some x \<Rightarrow> tax_type t = x)
    \<and> (case f_status filter_data of
          None \<Rightarrow> status t \<noteq> None \<and> status t \<noteq> Some DELETED
        | Some s \<Rightarrow> status t = Some s)
    \<and> (case f_employer_id filter_data of None \<Rightarrow> True | Some e \<Rightarrow> employer_id t = Some e)
    \<and> (case f_is_verified filter_data of None \<Rightarrow> True | Some b \<Rightarrow> is_verified t = b)
    \<and> (if truthy_str (f_search filter_data) then
          column_ilike ilike (the (f_search filter_data)) (full_name t)
        \<or> column_ilike ilike (the (f_search filter_data)) (tin t)
        \<or> column_ilike ilike (the (f_search filter_data)) (business_name t)
        \<or> column_ilike ilike (the (f_search filter_data)) (email t)
        else True)
    \<and> (case f_created_after filter_data of None \<Rightarrow> True | Some a \<Rightarrow> a \<le> created_at t)
    \<and> (case f_created_before filter_data of None \<Rightarrow> True | Some b \<Rightarrow> created_at t \<le> b))"

definition apply_filters ::
  "(string \<Rightarrow> string \<Rightarrow> bool) \<Rightarrow> taxpayer list \<Rightarrow> taxpayer_filter \<Rightarrow> user \<Rightarrow> taxpayer list" where
  "apply_filters ilike rows filter_data current_user =
     rev (sort_key created_at
       (filter (\<lambda>t. base_permission current_user t \<and> user_filters ilike filter_data t) rows))"

text \<open>\<^verbatim>\<open>TaxpayerService.get_all\<close>: the page and the total count before pagination.\<close>

definition get_all ::
  "(string \<Rightarrow> string \<Rightarrow> bool) \<Rightarrow> db \<Rightarrow> taxpayer_filter \<Rightarrow> user \<Rightarrow> nat \<Rightarrow> nat
     \<Rightarrow> taxpayer list \<times> nat" where
  "get_all ilike d filter_data current_user skip limit =
     (let query = apply_filters ilike (taxpayers d) filter_data current_user
      in (take limit (drop skip query), length query))"

section \<open>Taxpayer service: verify\<close>

text \<open>Lines 350-362 of \<^verbatim>\<open>verify_taxpayer\<close>: commit, then the audit entry.\<close>

definition verify_commit ::
  "db \<Rightarrow> taxpayer \<Rightarrow> user \<Rightarrow> dict option \<Rightarrow> (error + taxpayer) \<times> session" where
  "verify_commit d t current_user verification_data =
     (let d1 = commit (d\<lparr>taxpayers := store_row t (taxpayers d)\<rparr>)
      in (case log_action d1 (uid current_user) ''taxpayer'' (taxpayer_id t) ''verify''
                 (VerifyData (if truthy_dict verification_data then the verification_data
                              else [])) of
            Active d2 \<Rightarrow> (Inr t, Active d2)
          | Inactive d2 \<Rightarrow> (Inl StatementError, Inactive d2)))"

text \<open>
  \<^verbatim>\<open>TaxpayerService.verify_taxpayer\<close>. The organization test of lines 334-338 is guarded
  by \<^verbatim>\<open>taxpayer.employer_id and ...\<close>, so it is skipped for a record without an employer.
  With verification data, line 348 assigns an item of \<^verbatim>\<open>taxpayer.metadata\<close>: on an object
  loaded from the store that is the registry, which is truthy and takes no item
  assignment; the fields set before stay on the session's object, uncommitted.
\<close>

definition verify_taxpayer ::
  "db \<Rightarrow> uuid \<Rightarrow> user \<Rightarrow> dict option \<Rightarrow> (error + taxpayer) \<times> session" where
  "verify_taxpayer d tid current_user verification_data =
     (case get_by_id d tid of
        Inl e \<Rightarrow> (Inl e, Active d)
      | Inr None \<Rightarrow> (Inl NotFoundException, Active d)
      | Inr (Some t) \<Rightarrow>
          if role current_user \<notin> {ADMIN, ACCOUNTANT} then (Inl ForbiddenException, Active d)
          else if employer_id t \<noteq> None \<and> role current_user = ACCOUNTANT
                  \<and> employer_id t \<noteq> organization_id current_user
          then (Inl ForbiddenException, Active d)
          else
            let t1 = t\<lparr>is_verified := True, verification_date := Some (clock d),
                       updated_by := Some (uid current_user)\<rparr>
            in if truthy_dict verification_data then
                 (case metadata t1 of
                    Registry \<Rightarrow>
                      (Inl TypeError, Active (d\<lparr>taxpayers := store_row t1 (taxpayers d)\<rparr>))
                  | Attr m \<Rightarrow>
                      verify_commit d
                        (t1\<lparr>metadata := Attr (Some (AList.update ''verification''
                               (JDict (the verification_data))
                               (if truthy_dict m then the m else [])))\<rparr>)
                        current_user verification_data)
               else verify_commit d t1 current_user verification_data)"

section \<open>Taxpayer service: bulk create\<close>

text \<open>
  A call of \<^verbatim>\<open>create\<close>, and of \<^verbatim>\<open>log_action\<close>, on the session as the loop of \<^verbatim>\<open>bulk_create\<close>
  finds it. On an inactive session the first database call raises
  \<^verbatim>\<open>PendingRollbackError\<close>; every path of \<^verbatim>\<open>create\<close> makes one (the lookup by tax-id, the lookup
  of the employer, or the commit) before anything of it takes effect, and \<^verbatim>\<open>create\<close>
  catches none.
\<close>

definition create_in :: "session \<Rightarrow> taxpayer_create \<Rightarrow> user \<Rightarrow> (error + taxpayer) \<times> session" where
  "create_in s taxpayer_data current_user =
     (case s of
        Active d \<Rightarrow> create d taxpayer_data current_user
      | Inactive d \<Rightarrow> (Inl PendingRollbackError, Inactive d))"

definition log_action_in ::
  "session \<Rightarrow> uuid \<Rightarrow> string \<Rightarrow> uuid \<Rightarrow> string \<Rightarrow> audit_details \<Rightarrow> (error + unit) \<times> session" where
  "log_action_in s usr etype eid act det =
     (case s of
        Active d \<Rightarrow>
          (case log_action d usr etype eid act det of
             Active d' \<Rightarrow> (Inr (), Active d')
           | Inactive d' \<Rightarrow> (Inl StatementError, Inactive d'))
      | Inactive d \<Rightarrow> (Inl PendingRollbackError, Inactive d))"

text \<open>
  \<^verbatim>\<open>TaxpayerService.bulk_create\<close>. The loop calls \<^verbatim>\<open>create\<close> for each item; on success it
  appends the row to \<open>successful\<close> and writes a second audit entry (action
  \<^verbatim>\<open>bulk_create\<close>); any exception of the two calls is caught and appended to \<open>failed\<close> with
  the item, and the session is not rolled back. After the loop \<^verbatim>\<open>db.commit()\<close> is called
  once more, outside any \<^verbatim>\<open>try\<close>: on an inactive session it raises.
\<close>

fun bulk_loop ::
  "session \<Rightarrow> taxpayer_create list \<Rightarrow> user \<Rightarrow> taxpayer list \<Rightarrow> (taxpayer_create \<times> error) list
     \<Rightarrow> (taxpayer list \<times> (taxpayer_create \<times> error) list) \<times> session" where
  "bulk_loop s [] current_user successful failed = ((successful, failed), s)"
| "bulk_loop s (data # rest) current_user successful failed =
     (case create_in s data current_user of
        (Inr t, s1) \<Rightarrow>
          (case log_action_in s1 (uid current_user) ''taxpayer'' (taxpayer_id t) ''bulk_create''
                  (CreateData data) of
             (Inr u, s2) \<Rightarrow> bulk_loop s2 rest current_user (successful @ [t]) failed
           | (Inl e, s2) \<Rightarrow>
               bulk_loop s2 rest current_user (successful @ [t]) (failed @ [(data, e)]))
      | (Inl e, s1) \<Rightarrow> bulk_loop s1 rest current_user successful (failed @ [(data, e)]))"

definition bulk_create ::
  "db \<Rightarrow> taxpayer_create list \<Rightarrow> user
     \<Rightarrow> (error + taxpayer list \<times> (taxpayer_create \<times> error) list) \<times> session" where
  "bulk_create d taxpayers_data current_user =
     (case bulk_loop (Active d) taxpayers_data current_user [] [] of
        (res, Active d') \<Rightarrow> (Inr res, Active (commit d'))
      | (res, Inactive d') \<Rightarrow> (Inl PendingRollbackError, Inactive d'))"

section \<open>Routes\<close>

text \<open>
  \<^verbatim>\<open>TaxpayerResponse.model_validate(taxpayer)\<close> reads the attributes of the object into the
  response fields, \<^verbatim>\<open>metadata\<close> into one of type \<^verbatim>\<open>Optional[Dict[str, Any]]\<close>: it fails on
  an object whose \<^verbatim>\<open>metadata\<close> is the registry. Apart from that the response is the row.
\<close>

definition taxpayer_response :: "taxpayer \<Rightarrow> error + taxpayer" where
  "taxpayer_response t = (case metadata t of Registry \<Rightarrow> Inl ValidationError | Attr m \<Rightarrow> Inr t)"

fun taxpayer_responses :: "taxpayer list \<Rightarrow> error + taxpayer list" where
  "taxpayer_responses [] = Inr []"
| "taxpayer_responses (t # ts) =
     (case taxpayer_response t of
        Inl e \<Rightarrow> Inl e
      | Inr r \<Rightarrow> (case taxpayer_responses ts of Inl e \<Rightarrow> Inl e | Inr rs \<Rightarrow> Inr (r # rs)))"

text \<open>
  The request handlers of \<^verbatim>\<open>api/v1/routes/taxpayer.py\<close>, given the caller that the token
  resolved to. Each runs in a session of its own, which \<^verbatim>\<open>get_db\<close> closes when the handler
  is left, by a return or by an exception; the second component is the store then.
\<close>

definition create_taxpayer :: "db \<Rightarrow> taxpayer_create \<Rightarrow> user \<Rightarrow> (error + taxpayer) \<times> db" where
  "create_taxpayer d taxpayer_data current_user =
     (case require_role current_user [ADMIN, ACCOUNTANT, EMPLOYER] of
        Inl e \<Rightarrow> (Inl e, close (Active d))
      | Inr _ \<Rightarrow>
          (case create d taxpayer_data current_user of
             (Inl e, s) \<Rightarrow> (Inl e, close s)
           | (Inr t, s) \<Rightarrow> (taxpayer_response t, close s)))"

definition update_taxpayer ::
  "db \<Rightarrow> uuid \<Rightarrow> taxpayer_update \<Rightarrow> user \<Rightarrow> (error + taxpayer) \<times> db" where
  "update_taxpayer d tid update_data current_user =
     (case require_role current_user [ADMIN, ACCOUNTANT, EMPLOYER] of
        Inl e \<Rightarrow> (Inl e, close (Active d))
      | Inr _ \<Rightarrow>
          (case update d tid update_data current_user of
             (Inl e, s) \<Rightarrow> (Inl e, close s)
           | (Inr t, s) \<Rightarrow> (taxpayer_response t, close s)))"

definition delete_taxpayer :: "db \<Rightarrow> uuid \<Rightarrow> bool \<Rightarrow> user \<Rightarrow> (error + unit) \<times> db" where
  "delete_taxpayer d tid soft_delete current_user =
     (case require_role current_user [ADMIN, ACCOUNTANT] of
        Inl e \<Rightarrow> (Inl e, close (Active d))
      | Inr _ \<Rightarrow> (case delete d tid current_user soft_delete of (r, s) \<Rightarrow> (r, close s)))"

definition verify_taxpayer_route :: "db \<Rightarrow> uuid \<Rightarrow> user \<Rightarrow> (error + taxpayer) \<times> db" where
  "verify_taxpayer_route d tid current_user =
     (case require_role current_user [ADMIN, ACCOUNTANT] of
        Inl e \<Rightarrow> (Inl e, close (Active d))
      | Inr _ \<Rightarrow>
          (case verify_taxpayer d tid current_user None of
             (Inl e, s) \<Rightarrow> (Inl e, close s)
           | (Inr t, s) \<Rightarrow> (taxpayer_response t, close s)))"

text \<open>\<^verbatim>\<open>TaxpayerImportResult\<close> as built by \<^verbatim>\<open>bulk_create_taxpayers\<close>.\<close>

record taxpayer_import_result =
  successful :: "taxpayer list"
  failed :: "(taxpayer_create \<times> error) list"
  total_processed :: nat
  successful_count :: nat
  failed_count :: nat

definition bulk_create_taxpayers ::
  "db \<Rightarrow> taxpayer_create list \<Rightarrow> user \<Rightarrow> (error + taxpayer_import_result) \<times> db" where
  "bulk_create_taxpayers d bulk_data current_user =
     (case require_role current_user [ADMIN, ACCOUNTANT] of
        Inl e \<Rightarrow> (Inl e, close (Active d))
      | Inr _ \<Rightarrow>
          (case bulk_create d bulk_data current_user of
             (Inl e, s) \<Rightarrow> (Inl e, close s)
           | (Inr (succ, fl), s) \<Rightarrow>
               (case taxpayer_responses succ of
                  Inl e \<Rightarrow> (Inl e, close s)
                | Inr rs \<Rightarrow>
                    (Inr \<lparr>successful = rs, failed = fl, total_processed = length bulk_data,
                          successful_count = length succ, failed_count = length fl\<rparr>,
                     close s))))"

text \<open>
  \<^verbatim>\<open>get_taxpayer\<close> (lines 80-103): the lookup, \<^verbatim>\<open>NotFoundException\<close> when there is no row, then
  the detail response is built from the row. The response builder reads attributes of the
  ORM object whose declarations are not part of the sources (\<^verbatim>\<open>employer\<close>, \<^verbatim>\<open>filings\<close>,
  \<^verbatim>\<open>refund_cases\<close>); it is the parameter \<open>detail_response\<close>. \<open>current_user\<close> is not used in
  the body.
\<close>

definition get_taxpayer ::
  "(taxpayer \<Rightarrow> error + 'r) \<Rightarrow> db \<Rightarrow> uuid \<Rightarrow> user \<Rightarrow> (error + 'r) \<times> db" where
  "get_taxpayer detail_response d tid current_user =
     (case get_by_id d tid of
        Inl e \<Rightarrow> (Inl e, close (Active d))
      | Inr None \<Rightarrow> (Inl NotFoundException, close (Active d))
      | Inr (Some t) \<Rightarrow> (detail_response t, close (Active d)))"

text \<open>
  \<^verbatim>\<open>search_by_tin\<close> (lines 184-205), the sibling read, which does test the ownership before
  it builds the same detail response.
\<close>

definition search_by_tin ::
  "(taxpayer \<Rightarrow> error + 'r) \<Rightarrow> db \<Rightarrow> string \<Rightarrow> user \<Rightarrow> (error + 'r) \<times> db" where
  "search_by_tin detail_response d n current_user =
     (case get_by_tin d n of
        Inl e \<Rightarrow> (Inl e, close (Active d))
      | Inr None \<Rightarrow> (Inl NotFoundException, close (Active d))
      | Inr (Some t) \<Rightarrow>
          if role current_user \<noteq> ADMIN \<and> role current_user \<in> {ACCOUNTANT, EMPLOYER}
             \<and> employer_id t \<noteq> organization_id current_user
          then (Inl (HTTPException 403), close (Active d))
          else (detail_response t, close (Active d)))"

section \<open>The schema's validation of the tax-id\<close>

text \<open>
  \<^verbatim>\<open>TaxpayerBase.validate_tin\<close> and the field pattern \<^verbatim>\<open>^\d{10,12}$\<close>: a tax-id that is present
  consists of 10 to 12 digits. Every \<^verbatim>\<open>TaxpayerCreate\<close> the service receives has passed it.
  A \<open>string\<close> is a list of 8-bit characters, so the digits are the ASCII ones; the digits
  of other scripts, which the pattern accepts too, are outside the type.
\<close>

definition isdigit :: "char \<Rightarrow> bool" where
  "isdigit c = (c \<in> set ''0123456789'')"

definition validate_tin :: "string option \<Rightarrow> bool" where
  "validate_tin v =
     (case v of None \<Rightarrow> True
      | Some s \<Rightarrow> list_all isdigit s \<and> 10 \<le> length s \<and> length s \<le> 12)"

text \<open>The store's invariant from the unique index on \<^verbatim>\<open>tin\<close>: no insert ever conflicted.\<close>

fun tin_unique :: "taxpayer list \<Rightarrow> bool" where
  "tin_unique [] = True"
| "tin_unique (t # ts) = (\<not> tin_conflict ts (tin t) \<and> tin_unique ts)"

section \<open>Sample data\<close>

text \<open>Callers, rows and requests used to run the operations on concrete inputs.\<close>

definition admin_user :: user where
  "admin_user = \<lparr>uid = 100, user_email = ''admin@example.com'', password_hash = ''h-admin'',
     role = ADMIN, organization_id = None, is_active = True\<rparr>"

definition accountant_a :: user where
  "accountant_a = \<lparr>uid = 101, user_email = ''a@example.com'', password_hash = ''h-a'',
     role = ACCOUNTANT, organization_id = Some 1, is_active = True\<rparr>"

definition accountant_b :: user where
  "accountant_b = \<lparr>uid = 102, user_email = ''b@example.com'', password_hash = ''h-b'',
     role = ACCOUNTANT, organization_id = Some 2, is_active = True\<rparr>"

definition accountant_free :: user where
  "accountant_free = \<lparr>uid = 103, user_email = ''free@example.com'', password_hash = ''h-f'',
     role = ACCOUNTANT, organization_id = None, is_active = True\<rparr>"

definition organization_user :: user where
  "organization_user = \<lparr>uid = 104, user_email = ''org@example.com'', password_hash = ''h-o'',
     role = ORGANIZATION, organization_id = Some 1, is_active = True\<rparr>"

definition inactive_user :: user where
  "inactive_user = \<lparr>uid = 105, user_email = ''gone@example.com'', password_hash = ''h-g'',
     role = ACCOUNTANT, organization_id = Some 1, is_active = False\<rparr>"

text \<open>A row of the store, as a session loads it: no \<^verbatim>\<open>metadata\<close> attribute.\<close>

definition sample_row :: "uuid \<Rightarrow> string option \<Rightarrow> uuid option \<Rightarrow> taxpayer" where
  "sample_row i n e =
     \<lparr>taxpayer_id = i, full_name = Some ''John Chinedu'', tin = n, email = None,
      state = LAGOS, tax_type = PAYE, business_name = None, employer_id = e,
      employment_date = None, status = Some ACTIVE, is_verified = False,
      verification_date = None, extra_data = [(''a'', JInt 1)], metadata = Registry,
      created_by = Some 100, updated_by = Some 100, created_at = 5\<rparr>"

definition sample_create :: "string option \<Rightarrow> uuid option \<Rightarrow> taxpayer_create" where
  "sample_create n e =
     \<lparr>c_full_name = ''Jane Smith'', c_tin = n, c_email = None, c_state = FCT,
      c_tax_type = PIT, c_business_name = None, c_employment_date = None,
      c_metadata = Some [], c_employer_id = e\<rparr>"

definition empty_db :: db where
  "empty_db = \<lparr>taxpayers = [], committed = [],
     users = [admin_user, accountant_a, accountant_b, inactive_user],
     organizations = [1, 2], audit_logs = [], pending = [], commits = 0, audit_written = 0,
     next_id = 10, clock = 7\<rparr>"

definition sample_rows :: "taxpayer list" where
  "sample_rows =
     [sample_row 1 (Some ''1234567890'') (Some 1), sample_row 2 None None,
      sample_row 3 (Some ''0987654321'') (Some 2)]"

definition sample_db :: db where
  "sample_db = empty_db\<lparr>taxpayers := sample_rows, committed := sample_rows\<rparr>"

text \<open>
  The same store in a session in which the object of taxpayer 1 carries a \<^verbatim>\<open>metadata\<close>
  attribute with the map \<^verbatim>\<open>{a: 1}\<close>, as an object built in that session does.
\<close>

definition in_session_row :: taxpayer where
  "in_session_row = (sample_row 1 (Some ''1234567890'') (Some 1))
                      \<lparr>metadata := Attr (Some [(''a'', JInt 1)])\<rparr>"

definition in_session_db :: db where
  "in_session_db = sample_db\<lparr>taxpayers := store_row in_session_row sample_rows\<rparr>"

definition sample_batch :: "taxpayer_create list" where
  "sample_batch = [sample_create (Some ''1234567890'') None,
                   sample_create (Some ''1234567890'') None,
                   sample_create (Some ''0987654321'') None]"

definition employer_batch :: "taxpayer_create list" where
  "employer_batch = [sample_create (Some ''1234567890'') (Some 1),
                     sample_create (Some ''0987654321'') None]"

definition patch_b :: taxpayer_update where
  "patch_b = \<lparr>u_full_name = None, u_email = None, u_employment_date = None, u_status = None,
     u_metadata = Some (Some [(''b'', JInt 2)])\<rparr>"

definition no_filter :: taxpayer_filter where
  "no_filter = \<lparr>f_state = None, f_tax_type = None, f_status = None, f_employer_id = None,
     f_is_verified = None, f_search = None, f_created_after = None, f_created_before = None\<rparr>"

section \<open>Evaluation on the sample data\<close>

lemmas sample_defs = admin_user_def accountant_a_def accountant_b_def accountant_free_def
  organization_user_def inactive_user_def sample_row_def sample_create_def empty_db_def
  sample_rows_def sample_db_def in_session_row_def in_session_db_def sample_batch_def
  employer_batch_def patch_b_def no_filter_def

lemmas service_defs = create_def check_tin_def check_employer_def get_by_tin_def get_by_id_def
  organization_get_by_id_def truthy_str_def truthy_dict_def tin_conflict_def new_taxpayer_def
  commit_def rollback_def close_def detach_def session_db_def log_action_def
  json_serializable_def require_role_def taxpayer_response_def store_row_def

section \<open>Identity service: authentication\<close>

text \<open>
  C8 (amended). \<^verbatim>\<open>authenticate_user\<close> returns none when no user has the email. For the
  account found, the password is verified first: on a mismatch the result is none,
  whether the account is active or not; on a match the call fails with
  \<^verbatim>\<open>UnauthorizedException\<close> when the account is inactive and returns the user otherwise.
\<close>

theorem authenticate_user_password_first:
  "(filter (\<lambda>x. user_email x = l_email ld) (users d) = [] \<longrightarrow>
      authenticate_user vp d ld = Inr None)
 \<and> (filter (\<lambda>x. user_email x = l_email ld) (users d) = [u] \<longrightarrow>
      authenticate_user vp d ld =
        (if \<not> vp (l_password ld) (password_hash u) then Inr None
         else if \<not> is_active u then Inl UnauthorizedException
         else Inr (Some u)))"
  by (simp add: authenticate_user_def)

text \<open>
  The four outcomes on the sample store, with string equality as the hash check: unknown
  email, active account with the right and with a wrong password, inactive account with
  the right password.
\<close>

theorem authenticate_user_password_first_witness:
  "authenticate_user (=) sample_db \<lparr>l_email = ''nobody@example.com'', l_password = ''h-a''\<rparr>
     = Inr None
 \<and> authenticate_user (=) sample_db \<lparr>l_email = ''a@example.com'', l_password = ''h-a''\<rparr>
     = Inr (Some accountant_a)
 \<and> authenticate_user (=) sample_db \<lparr>l_email = ''a@example.com'', l_password = ''bad''\<rparr>
     = Inr None
 \<and> authenticate_user (=) sample_db \<lparr>l_email = ''gone@example.com'', l_password = ''h-g''\<rparr>
     = Inl UnauthorizedException"
  using authenticate_user_password_first
          [of "\<lparr>l_email = ''nobody@example.com'', l_password = ''h-a''\<rparr>" sample_db "(=)" accountant_a]
        authenticate_user_password_first
          [of "\<lparr>l_email = ''a@example.com'', l_password = ''h-a''\<rparr>" sample_db "(=)" accountant_a]
        authenticate_user_password_first
          [of "\<lparr>l_email = ''a@example.com'', l_password = ''bad''\<rparr>" sample_db "(=)" accountant_a]
        authenticate_user_password_first
          [of "\<lparr>l_email = ''gone@example.com'', l_password = ''h-g''\<rparr>" sample_db "(=)" inactive_user]
  by (simp add: sample_defs)

text \<open>
  C8 as stated fails: the account looked up is inactive and the password is wrong, and
  the call returns none instead of failing with \<^verbatim>\<open>UnauthorizedException\<close>.
\<close>

theorem authenticate_user_inactive_counterexample:
  "users sample_db = [admin_user, accountant_a, accountant_b, inactive_user]
 \<and> user_email inactive_user = ''gone@example.com''
 \<and> \<not> is_active inactive_user
 \<and> authenticate_user (=) sample_db \<lparr>l_email = ''gone@example.com'', l_password = ''wrong''\<rparr>
     = Inr None"
  by (simp add: authenticate_user_def sample_defs)

section \<open>Ownership check with a null organization\<close>

text \<open>
  C10. For an actor of role ACCOUNTANT or EMPLOYER whose organization reference is null,
  \<^verbatim>\<open>_check_permissions\<close> grants the action on every taxpayer whose employer reference is
  null and raises \<^verbatim>\<open>ForbiddenException\<close> on every taxpayer whose employer reference is not.
\<close>

theorem check_permissions_null_organization:
  assumes "role u \<in> {ACCOUNTANT, EMPLOYER}" and "organization_id u = None"
  shows "(employer_id t = None \<longrightarrow> check_permissions t u act = Inr ())
       \<and> (employer_id t \<noteq> None \<longrightarrow> check_permissions t u act = Inl ForbiddenException)"
  using assms by (auto simp: check_permissions_def)

theorem check_permissions_null_organization_witness:
  "role accountant_free \<in> {ACCOUNTANT, EMPLOYER} \<and> organization_id accountant_free = None
 \<and> check_permissions (sample_row 2 None None) accountant_free ''update'' = Inr ()
 \<and> check_permissions (sample_row 1 None (Some 1)) accountant_free ''delete''
     = Inl ForbiddenException"
  using check_permissions_null_organization
          [of accountant_free "sample_row 2 None None" "''update''"]
        check_permissions_null_organization
          [of accountant_free "sample_row 1 None (Some 1)" "''delete''"]
  by (simp add: accountant_free_def sample_row_def)

text \<open>\<^verbatim>\<open>update\<close> and \<^verbatim>\<open>delete\<close> raise what the check raises.\<close>

lemma update_check_permissions:
  "get_by_id d tid = Inr (Some t) \<Longrightarrow> check_permissions t u ''update'' = Inl e \<Longrightarrow>
   update d tid p u = (Inl e, Active d)"
  by (simp add: update_def)

lemma delete_check_permissions:
  "get_by_id d tid = Inr (Some t) \<Longrightarrow>
   fst (delete d tid u soft) =
     (case check_permissions t u ''delete'' of Inl e \<Rightarrow> Inl e | Inr x \<Rightarrow> Inr ())"
  by (simp add: delete_def log_action_def json_serializable_def Let_def split: sum.splits)

section \<open>Verification\<close>

text \<open>
  For a taxpayer in the store, \<^verbatim>\<open>verify_taxpayer\<close> raises \<^verbatim>\<open>ForbiddenException\<close> exactly when
  the actor's role is neither ADMIN nor ACCOUNTANT, or the actor is an ACCOUNTANT and the
  record has an employer reference that differs from the actor's organization.
\<close>

lemma verify_taxpayer_forbidden_iff:
  assumes "get_by_id d tid = Inr (Some t)"
  shows "fst (verify_taxpayer d tid u vd) = Inl ForbiddenException \<longleftrightarrow>
            role u \<notin> {ADMIN, ACCOUNTANT}
          \<or> (role u = ACCOUNTANT \<and> employer_id t \<noteq> None
              \<and> employer_id t \<noteq> organization_id u)"
  using assms
  by (auto simp: verify_taxpayer_def verify_commit_def log_action_def json_serializable_def
        Let_def split: py_metadata.splits)

text \<open>
  C7 fails on the code. An ACCOUNTANT of organization 1 verifies taxpayer 2, which has no
  employer reference and so does not belong to that organization. \<^verbatim>\<open>verify_taxpayer\<close> does
  not refuse: it returns the record marked as verified and commits it. The ownership
  check of update and delete refuses the same actor on the same record, and the
  visibility filter of the list hides the record from that actor.
\<close>

theorem verify_taxpayer_unassigned_not_refused:
  "get_by_id sample_db 2 = Inr (Some (sample_row 2 None None))
 \<and> role accountant_a = ACCOUNTANT
 \<and> organization_id accountant_a = Some 1
 \<and> employer_id (sample_row 2 None None) = None
 \<and> fst (verify_taxpayer sample_db 2 accountant_a None) =
     Inr ((sample_row 2 None None)\<lparr>is_verified := True, verification_date := Some 7,
            updated_by := Some 101\<rparr>)
 \<and> get_by_id (close (snd (verify_taxpayer sample_db 2 accountant_a None))) 2 =
     Inr (Some ((sample_row 2 None None)\<lparr>is_verified := True, verification_date := Some 7,
            updated_by := Some 101\<rparr>))
 \<and> check_permissions (sample_row 2 None None) accountant_a ''update'' = Inl ForbiddenException
 \<and> check_permissions (sample_row 2 None None) accountant_a ''delete'' = Inl ForbiddenException
 \<and> \<not> base_permission accountant_a (sample_row 2 None None)"
  by (simp add: verify_taxpayer_def verify_commit_def check_permissions_def base_permission_def
        service_defs Let_def sample_defs)

section \<open>Create: duplicate tax-id\<close>

text \<open>Under the unique index, the lookup by tax-id finds the one row that carries it.\<close>

lemma tin_unique_filter:
  "tin_unique rows \<Longrightarrow> existing \<in> set rows \<Longrightarrow> tin existing = Some n \<Longrightarrow>
   filter (\<lambda>t. tin t = Some n) rows = [existing]"
proof (induction rows)
  case Nil
  then show ?case by simp
next
  case (Cons r rows)
  show ?case
  proof (cases "existing = r")
    case True
    with Cons.prems have "Some n \<notin> set (map tin rows)"
      by (simp add: tin_conflict_def)
    then have "filter (\<lambda>t. tin t = Some n) rows = []"
      by (force simp: filter_empty_conv image_iff)
    with True Cons.prems show ?thesis by simp
  next
    case False
    with Cons.prems have mem: "existing \<in> set rows" by simp
    with Cons.prems have "tin r \<noteq> Some n"
      by (force simp: tin_conflict_def image_iff)
    moreover have "filter (\<lambda>t. tin t = Some n) rows = [existing]"
      using Cons.IH Cons.prems mem by simp
    ultimately show ?thesis by simp
  qed
qed

lemma validate_tin_truthy: "validate_tin (Some n) \<Longrightarrow> truthy_str (Some n)"
  by (auto simp: validate_tin_def truthy_str_def)

text \<open>
  C9. In every store state (satisfying the unique index) that contains a taxpayer with a
  tax-id, \<^verbatim>\<open>create\<close> with the same tax-id fails with \<^verbatim>\<open>ConflictException\<close> and leaves the
  session, still active, in the state it was given: no row is added, no audit entry is
  written, no row is modified and nothing is committed.
\<close>

theorem create_duplicate_tin_conflict:
  assumes "tin_unique (taxpayers d)"
      and "existing \<in> set (taxpayers d)"
      and "tin existing = Some n"
      and "c_tin taxpayer_data = Some n"
      and "validate_tin (c_tin taxpayer_data)"
  shows "create d taxpayer_data current_user = (Inl ConflictException, Active d)"
proof -
  have "get_by_tin d n = Inr (Some existing)"
    using tin_unique_filter [OF assms(1-3)] by (simp add: get_by_tin_def)
  moreover have "truthy_str (c_tin taxpayer_data)"
    using assms(4,5) validate_tin_truthy by simp
  ultimately have "check_tin d taxpayer_data = Inl ConflictException"
    using assms(4) by (simp add: check_tin_def)
  then show ?thesis by (simp add: create_def)
qed

theorem create_duplicate_tin_conflict_witness:
  "tin_unique (taxpayers sample_db)
 \<and> sample_row 1 (Some ''1234567890'') (Some 1) \<in> set (taxpayers sample_db)
 \<and> validate_tin (Some ''1234567890'')
 \<and> create sample_db (sample_create (Some ''1234567890'') None) accountant_a
     = (Inl ConflictException, Active sample_db)"
proof -
  have 1: "tin_unique (taxpayers sample_db)"
    by (simp add: sample_defs tin_conflict_def)
  have 2: "sample_row 1 (Some ''1234567890'') (Some 1) \<in> set (taxpayers sample_db)"
    by (simp add: sample_defs)
  have 3: "tin (sample_row 1 (Some ''1234567890'') (Some 1)) = Some ''1234567890''"
    by (simp add: sample_defs)
  have 4: "c_tin (sample_create (Some ''1234567890'') None) = Some ''1234567890''"
    by (simp add: sample_defs)
  have 5: "validate_tin (c_tin (sample_create (Some ''1234567890'') None))"
    by (simp add: sample_defs validate_tin_def isdigit_def)
  from create_duplicate_tin_conflict [OF 1 2 3 4 5, of accountant_a] 1 2 5 4
  show ?thesis by simp
qed

section \<open>Create: the row and its audit entry\<close>

text \<open>
  What a call of \<^verbatim>\<open>create\<close> leaves behind: when it returns the row, when the audit flush
  raises after the commit, and when it raises anything else.
\<close>

lemma create_success:
  "create d x u = (Inr t, s) \<Longrightarrow>
     \<exists>d'. s = Active d' \<and> t = new_taxpayer d x u \<and> json_serializable (CreateData x)
        \<and> taxpayers d' = taxpayers d @ [t] \<and> committed d' = taxpayers d @ [t]
        \<and> commits d' = Suc (commits d) \<and> audit_written d' = Suc (audit_written d)
        \<and> audit_logs d' = audit_logs d @ pending d
        \<and> pending d' = [\<lparr>user_id = uid u, entity_type = ''taxpayer'', entity_id = taxpayer_id t,
                          action = ''create'', details = CreateData x\<rparr>]"
  by (auto simp: create_def commit_def log_action_def Let_def split: sum.splits if_splits)

lemma create_statement_error:
  "create d x u = (Inl StatementError, s) \<Longrightarrow>
     \<exists>d'. s = Inactive d' \<and> \<not> json_serializable (CreateData x)
        \<and> committed d' = taxpayers d @ [new_taxpayer d x u]
        \<and> audit_logs d' = audit_logs d @ pending d \<and> pending d' = []"
  by (auto simp: create_def check_tin_def check_employer_def get_by_tin_def
        organization_get_by_id_def commit_def rollback_def log_action_def Let_def
      split: sum.splits if_splits option.splits
      elim!: scalar_one_or_none.elims)

lemma create_failure:
  "create d x u = (Inl e, s) \<Longrightarrow> e \<noteq> StatementError \<Longrightarrow>
     s = Active d \<or> s = Active (rollback d)"
  by (auto simp: create_def log_action_def Let_def split: sum.splits if_splits)

text \<open>
  Through the route, a create that returns leaves the row in the durable table, while the
  durable audit trail holds nothing new: the entry was flushed after the commit and is
  discarded when the session is closed.
\<close>

lemma create_taxpayer_audit_lost:
  "create_taxpayer d x u = (Inr t, d') \<Longrightarrow>
     detach t \<in> set (committed d') \<and> audit_logs d' = audit_logs d @ pending d \<and> pending d' = []"
  by (auto simp: create_taxpayer_def close_def rollback_def session_db_def taxpayer_response_def
           split: sum.splits prod.splits py_metadata.splits
           dest!: create_success)

text \<open>
  C1 fails on the code. An accountant of organization 1 creates a taxpayer on the empty
  store. Without an employer reference the call returns the row, and the row is durable
  but no audit entry is: \<^verbatim>\<open>create\<close> commits once, before the entry is written, and returns
  with the entry pending; the route then closes the session. With the accountant's own
  organization as employer the row is committed all the same and the audit flush then
  raises, so the caller gets an error, the row is durable and there is no audit entry.
  Either way the row is durable without its create-audit entry.
\<close>

theorem create_taxpayer_row_without_audit:
  "committed empty_db = [] \<and> audit_logs empty_db = [] \<and> pending empty_db = []
 \<and> fst (create_taxpayer empty_db (sample_create (Some ''1234567890'') None) accountant_a)
     = Inr (new_taxpayer empty_db (sample_create (Some ''1234567890'') None) accountant_a)
 \<and> committed (snd (create_taxpayer empty_db (sample_create (Some ''1234567890'') None) accountant_a))
     = [detach (new_taxpayer empty_db (sample_create (Some ''1234567890'') None) accountant_a)]
 \<and> audit_logs (snd (create_taxpayer empty_db (sample_create (Some ''1234567890'') None) accountant_a)) = []
 \<and> pending (snd (create_taxpayer empty_db (sample_create (Some ''1234567890'') None) accountant_a)) = []
 \<and> commits (session_db (snd (create empty_db (sample_create (Some ''1234567890'') None) accountant_a))) = 1
 \<and> committed (session_db (snd (create empty_db (sample_create (Some ''1234567890'') None) accountant_a)))
     = [new_taxpayer empty_db (sample_create (Some ''1234567890'') None) accountant_a]
 \<and> audit_logs (session_db (snd (create empty_db (sample_create (Some ''1234567890'') None) accountant_a))) = []
 \<and> map action (pending (session_db (snd (create empty_db (sample_create (Some ''1234567890'') None) accountant_a))))
     = [''create'']
 \<and> fst (create_taxpayer empty_db (sample_create (Some ''1234567890'') (Some 1)) accountant_a)
     = Inl StatementError
 \<and> committed (snd (create_taxpayer empty_db (sample_create (Some ''1234567890'') (Some 1)) accountant_a))
     = [detach (new_taxpayer empty_db (sample_create (Some ''1234567890'') (Some 1)) accountant_a)]
 \<and> audit_logs (snd (create_taxpayer empty_db (sample_create (Some ''1234567890'') (Some 1)) accountant_a)) = []"
  by (simp add: create_taxpayer_def service_defs Let_def sample_defs)

section \<open>Bulk create\<close>

text \<open>
  The effect of the loop for a batch whose items can all be serialized (none has an
  employer reference or an employment date), on a session without uncommitted changes:
  the session stays active, the rows of the successful items are appended to the table
  and are durable, every success costs one commit and two audit entries, and a failure
  costs nothing.
\<close>

lemma bulk_loop_effects:
  assumes "\<forall>x\<in>set xs. json_serializable (CreateData x)"
      and "taxpayers d = committed d"
      and "bulk_loop (Active d) xs u succ fl = ((succ', fl'), s')"
  shows "\<exists>d' s f. s' = Active d' \<and> succ' = succ @ s \<and> fl' = fl @ f
          \<and> taxpayers d' = taxpayers d @ s \<and> committed d' = taxpayers d'
          \<and> length s + length f = length xs
          \<and> commits d' = commits d + length s
          \<and> audit_written d' = audit_written d + 2 * length s"
  using assms
proof (induction xs arbitrary: d succ fl)
  case Nil
  then show ?case by (intro exI [of _ d] exI [of _ "[]"]) auto
next
  case (Cons x xs)
  from Cons.prems(1) have ser: "json_serializable (CreateData x)"
    and rest: "\<forall>y\<in>set xs. json_serializable (CreateData y)" by simp_all
  obtain r s1 where c: "create d x u = (r, s1)" by (cases "create d x u")
  show ?case
  proof (cases r)
    case (Inl e)
    with c ser have "e \<noteq> StatementError"
      using create_statement_error by blast
    with c Inl have "s1 = Active d \<or> s1 = Active (rollback d)"
      using create_failure by blast
    then obtain d1 where s1: "s1 = Active d1" and t1: "taxpayers d1 = taxpayers d"
      and c1: "committed d1 = committed d" and n1: "commits d1 = commits d"
      and a1: "audit_written d1 = audit_written d"
      using Cons.prems(2) by (auto simp: rollback_def)
    from c Inl s1 Cons.prems(3)
    have "bulk_loop (Active d1) xs u succ (fl @ [(x, e)]) = ((succ', fl'), s')"
      by (simp add: create_in_def)
    from Cons.IH [OF rest _ this] t1 c1 Cons.prems(2) obtain d' s f where
      "s' = Active d'" "succ' = succ @ s" "fl' = (fl @ [(x, e)]) @ f"
      "taxpayers d' = taxpayers d1 @ s" "committed d' = taxpayers d'"
      "length s + length f = length xs" "commits d' = commits d1 + length s"
      "audit_written d' = audit_written d1 + 2 * length s" by auto
    with t1 n1 a1 show ?thesis
      by (intro exI [of _ d'] exI [of _ s] exI [of _ "(x, e) # f"]) simp
  next
    case (Inr t)
    with c obtain d1 where s1: "s1 = Active d1" and t1: "taxpayers d1 = taxpayers d @ [t]"
      and c1: "committed d1 = taxpayers d @ [t]" and n1: "commits d1 = Suc (commits d)"
      and a1: "audit_written d1 = Suc (audit_written d)"
      using create_success by blast
    define d2 where "d2 = d1\<lparr>pending := pending d1 @
        [\<lparr>user_id = uid u, entity_type = ''taxpayer'', entity_id = taxpayer_id t,
          action = ''bulk_create'', details = CreateData x\<rparr>],
        audit_written := Suc (audit_written d1)\<rparr>"
    from ser s1 have l: "log_action_in s1 (uid u) ''taxpayer'' (taxpayer_id t) ''bulk_create''
        (CreateData x) = (Inr (), Active d2)"
      by (simp add: log_action_in_def log_action_def d2_def)
    from c Inr l Cons.prems(3)
    have loop: "bulk_loop (Active d2) xs u (succ @ [t]) fl = ((succ', fl'), s')"
      by (simp add: create_in_def)
    have clean: "taxpayers d2 = committed d2"
      using t1 c1 by (simp add: d2_def)
    from Cons.IH [OF rest clean loop] obtain d' s f where
      "s' = Active d'" "succ' = (succ @ [t]) @ s" "fl' = fl @ f"
      "taxpayers d' = taxpayers d2 @ s" "committed d' = taxpayers d'"
      "length s + length f = length xs" "commits d' = commits d2 + length s"
      "audit_written d' = audit_written d2 + 2 * length s" by auto
    with t1 n1 a1 show ?thesis
      by (intro exI [of _ d'] exI [of _ "t # s"] exI [of _ f]) (simp add: d2_def)
  qed
qed

lemma bulk_create_commit_count:
  assumes "\<forall>x\<in>set xs. json_serializable (CreateData x)"
      and "taxpayers d = committed d"
  shows "\<exists>succ fl d'. bulk_create d xs u = (Inr (succ, fl), Active d')
          \<and> length succ + length fl = length xs
          \<and> committed d' = committed d @ succ
          \<and> commits d' = commits d + length succ + 1
          \<and> audit_written d' = audit_written d + 2 * length succ"
proof -
  obtain succ fl s' where loop: "bulk_loop (Active d) xs u [] [] = ((succ, fl), s')"
    by (metis surj_pair)
  from bulk_loop_effects [OF assms loop] obtain d1 where
    "s' = Active d1" "taxpayers d1 = taxpayers d @ succ" "length succ + length fl = length xs"
    "commits d1 = commits d + length succ" "audit_written d1 = audit_written d + 2 * length succ"
    by auto
  with loop assms(2) show ?thesis
    by (simp add: bulk_create_def commit_def)
qed

text \<open>
  C5 fails on the code. A batch of two valid items on the empty store: both succeed,
  three commits are issued (one inside each \<^verbatim>\<open>create\<close>, so the first row is durable
  before the second item is attempted, and one after the loop) and four audit entries
  are written, two for each row (\<^verbatim>\<open>create\<close> and \<^verbatim>\<open>bulk_create\<close>).
\<close>

theorem bulk_create_two_items_three_commits:
  "commits empty_db = 0 \<and> audit_logs empty_db = [] \<and> pending empty_db = []
 \<and> commits (session_db (snd (create empty_db (sample_batch ! 0) admin_user))) = 1
 \<and> map taxpayer_id (committed (session_db (snd (create empty_db (sample_batch ! 0) admin_user))))
     = [10]
 \<and> map_sum id (map_prod (map taxpayer_id) id)
       (fst (bulk_create empty_db [sample_batch ! 0, sample_batch ! 2] admin_user))
     = Inr ([10, 11], [])
 \<and> commits (session_db (snd (bulk_create empty_db [sample_batch ! 0, sample_batch ! 2] admin_user)))
     = 3
 \<and> map action (audit_logs (session_db (snd
       (bulk_create empty_db [sample_batch ! 0, sample_batch ! 2] admin_user))))
     = [''create'', ''bulk_create'', ''create'', ''bulk_create'']
 \<and> map entity_id (audit_logs (session_db (snd
       (bulk_create empty_db [sample_batch ! 0, sample_batch ! 2] admin_user))))
     = [10, 10, 11, 11]"
  by (simp add: bulk_create_def create_in_def log_action_in_def service_defs Let_def sample_defs)

text \<open>
  The scenario of three inputs without employer reference, the second with the tax-id of
  the first, through the route: two successes, one failure (\<^verbatim>\<open>ConflictException\<close>, paired
  with the second input), three processed, and the two rows are durable.
\<close>

lemma bulk_create_duplicate_scenario:
  "fst (bulk_create_taxpayers empty_db sample_batch accountant_a) =
     Inr \<lparr>successful = [new_taxpayer empty_db (sample_batch ! 0) accountant_a,
                        (new_taxpayer empty_db (sample_batch ! 2) accountant_a)\<lparr>taxpayer_id := 11\<rparr>],
          failed = [(sample_batch ! 1, ConflictException)],
          total_processed = 3, successful_count = 2, failed_count = 1\<rparr>
 \<and> committed (snd (bulk_create_taxpayers empty_db sample_batch accountant_a)) =
     [detach (new_taxpayer empty_db (sample_batch ! 0) accountant_a),
      detach ((new_taxpayer empty_db (sample_batch ! 2) accountant_a)\<lparr>taxpayer_id := 11\<rparr>)]"
  by (simp add: bulk_create_taxpayers_def bulk_create_def create_in_def log_action_in_def
        service_defs Let_def sample_defs)

text \<open>
  C6 fails on the code. An accountant of organization 1 submits two items: the first
  assigned to that organization, the second without employer, each with a tax-id of its
  own; the second succeeds when created alone. In the batch the row of the first item is
  committed, then the audit flush inside \<^verbatim>\<open>create\<close> raises, and the item is recorded as
  failed. That failure leaves the session inactive, so the second item fails too (with
  \<^verbatim>\<open>PendingRollbackError\<close>), and the commit after the loop raises: \<^verbatim>\<open>bulk_create\<close> does not
  return a result. The one durable row belongs to an item reported as failed.
\<close>

theorem bulk_create_employer_item_aborts_batch:
  "role accountant_a = ACCOUNTANT \<and> organization_id accountant_a = Some 1
 \<and> c_employer_id (employer_batch ! 0) = Some 1 \<and> c_employer_id (employer_batch ! 1) = None
 \<and> fst (create empty_db (employer_batch ! 1) accountant_a)
     = Inr (new_taxpayer empty_db (employer_batch ! 1) accountant_a)
 \<and> fst (bulk_loop (Active empty_db) employer_batch accountant_a [] [])
     = ([], [(employer_batch ! 0, StatementError), (employer_batch ! 1, PendingRollbackError)])
 \<and> fst (bulk_create empty_db employer_batch accountant_a) = Inl PendingRollbackError
 \<and> fst (bulk_create_taxpayers empty_db employer_batch accountant_a) = Inl PendingRollbackError
 \<and> committed (snd (bulk_create_taxpayers empty_db employer_batch accountant_a))
     = [detach (new_taxpayer empty_db (employer_batch ! 0) accountant_a)]
 \<and> audit_logs (snd (bulk_create_taxpayers empty_db employer_batch accountant_a)) = []"
  by (simp add: bulk_create_taxpayers_def bulk_create_def create_in_def log_action_in_def
        service_defs Let_def sample_defs)

section \<open>List: the visibility filter\<close>

text \<open>For an ACCOUNTANT or EMPLOYER caller the list only holds rows of the caller's
  organization reference.\<close>

lemma get_all_scoped:
  assumes "role u \<in> {ACCOUNTANT, EMPLOYER}"
      and "t \<in> set (fst (get_all ilike d f u skip limit))"
  shows "employer_id t = organization_id u"
proof -
  from assms(2) have "t \<in> set (apply_filters ilike (taxpayers d) f u)"
    by (auto simp: get_all_def Let_def dest: in_set_takeD in_set_dropD)
  then have "base_permission u t"
    by (simp add: apply_filters_def)
  with assms(1) show ?thesis
    by (auto simp: base_permission_def split: if_splits)
qed

text \<open>
  C2 fails on the code. A caller of role ORGANIZATION (not ADMIN) in organization 1 lists
  with no filter and receives the taxpayer whose employer is organization 2: the
  permission filter of \<^verbatim>\<open>_apply_filters\<close> adds no clause for that role.
\<close>

theorem get_all_organization_role_unscoped:
  "role organization_user = ORGANIZATION
 \<and> organization_id organization_user = Some 1
 \<and> employer_id (sample_row 3 (Some ''0987654321'') (Some 2)) = Some 2
 \<and> sample_row 3 (Some ''0987654321'') (Some 2)
     \<in> set (fst (get_all (=) sample_db no_filter organization_user 0 100))"
  by (simp add: get_all_def apply_filters_def base_permission_def user_filters_def
        truthy_str_def Let_def sample_defs)

section \<open>Direct reads\<close>

text \<open>The outcome of \<^verbatim>\<open>get_taxpayer\<close> does not depend on the caller; the sibling
  \<^verbatim>\<open>search_by_tin\<close> refuses a caller of another organization.\<close>

lemma get_taxpayer_ignores_caller:
  "get_taxpayer detail_response d tid u = get_taxpayer detail_response d tid u'"
  by (simp add: get_taxpayer_def)

lemma search_by_tin_forbidden:
  "get_by_tin d n = Inr (Some t) \<Longrightarrow> role u \<in> {ACCOUNTANT, EMPLOYER} \<Longrightarrow>
   employer_id t \<noteq> organization_id u \<Longrightarrow>
   fst (search_by_tin detail_response d n u) = Inl (HTTPException 403)"
  by (auto simp: search_by_tin_def)

text \<open>
  C3 fails on the code. An ACCOUNTANT of organization 2 fetches by id the taxpayer of
  organization 1: \<^verbatim>\<open>get_taxpayer\<close> goes on to build the response from the record, exactly
  as it does for an ADMIN, where the same caller is refused by \<^verbatim>\<open>search_by_tin\<close>.
\<close>

theorem get_taxpayer_other_organization:
  "role accountant_b = ACCOUNTANT
 \<and> organization_id accountant_b = Some 2
 \<and> employer_id (sample_row 1 (Some ''1234567890'') (Some 1)) = Some 1
 \<and> fst (get_taxpayer detail_response sample_db 1 accountant_b)
     = detail_response (sample_row 1 (Some ''1234567890'') (Some 1))
 \<and> get_taxpayer detail_response sample_db 1 accountant_b
     = get_taxpayer detail_response sample_db 1 admin_user
 \<and> fst (search_by_tin detail_response sample_db ''1234567890'' accountant_b)
     = Inl (HTTPException 403)"
  by (simp add: get_taxpayer_def search_by_tin_def get_by_id_def get_by_tin_def sample_defs)

section \<open>Update: the extension map\<close>

text \<open>\<^verbatim>\<open>dict.update\<close> adds the new keys, overwrites the keys present and keeps the others.\<close>

lemma dict_update_map_of:
  "distinct (map fst b) \<Longrightarrow> map_of (dict_update a b) = map_of a ++ map_of b"
  unfolding dict_update_def
proof (induction b arbitrary: a)
  case Nil
  then show ?case by simp
next
  case (Cons kv b)
  obtain k v where kv: "kv = (k, v)" by (cases kv)
  from Cons.prems kv have fresh: "k \<notin> dom (map_of b)" and d: "distinct (map fst b)"
    by (auto simp: dom_map_of_conv_image_fst)
  have "map_of (fold (\<lambda>(k, v). AList.update k v) b (AList.update k v a))
          = map_of (AList.update k v a) ++ map_of b"
    using Cons.IH [OF d] by simp
  also have "\<dots> = (map_of a ++ map_of b)(k \<mapsto> v)"
    using fresh by (simp add: update_conv' map_add_upd_left)
  also have "\<dots> = map_of a ++ map_of (kv # b)"
    unfolding kv by (simp only: map_of.simps fst_conv snd_conv map_add_upd)
  finally show ?case by (simp only: kv fold_simps prod.case)
qed

text \<open>
  \<^verbatim>\<open>create\<close> leaves the \<^verbatim>\<open>extra_data\<close> column at its default and puts the request's map
  into the \<^verbatim>\<open>metadata\<close> attribute; no step of \<^verbatim>\<open>update\<close> writes the \<^verbatim>\<open>extra_data\<close> column.
\<close>

lemma create_extra_data_default:
  "create d x u = (Inr t, s) \<Longrightarrow> extra_data t = [] \<and> metadata t = Attr (c_metadata x)"
  by (auto simp: new_taxpayer_def dest!: create_success)

lemma set_fields_extra_data: "extra_data (set_fields t p) = extra_data t"
  by (simp add: set_fields_def Let_def split: option.splits)

lemma set_fields_id: "taxpayer_id (set_fields t p) = taxpayer_id t"
  by (simp add: set_fields_def Let_def split: option.splits)

lemma merge_metadata_extra_data:
  "merge_metadata t m p = Inr (tm, p') \<Longrightarrow>
     extra_data tm = extra_data t \<and> taxpayer_id tm = taxpayer_id t"
  by (auto simp: merge_metadata_def split: option.splits if_splits)

lemma scalar_one_or_none_Some:
  "scalar_one_or_none xs = Inr (Some x) \<Longrightarrow> xs = [x]"
  by (cases xs rule: scalar_one_or_none.cases) simp_all

lemma store_row_extra_data:
  assumes "filter (\<lambda>r. taxpayer_id r = taxpayer_id t') rows = [t]"
      and "extra_data t' = extra_data t"
  shows "map extra_data (store_row t' rows) = map extra_data rows"
proof -
  have "extra_data (if taxpayer_id r = taxpayer_id t' then t' else r) = extra_data r"
    if "r \<in> set rows" for r
  proof (cases "taxpayer_id r = taxpayer_id t'")
    case True
    with that have "r \<in> set (filter (\<lambda>r. taxpayer_id r = taxpayer_id t') rows)" by simp
    with assms(1) have "r = t" by simp
    with assms(2) True show ?thesis by simp
  next
    case False
    then show ?thesis by simp
  qed
  then show ?thesis by (simp add: store_row_def)
qed

text \<open>
  Whatever \<^verbatim>\<open>update\<close> does, on a session without uncommitted changes, the \<^verbatim>\<open>extra_data\<close>
  of every durable row is afterwards what it was.
\<close>

lemma update_keeps_extra_data:
  assumes clean: "taxpayers d = committed d"
  shows "map extra_data (committed (session_db (snd (update d tid p u))))
           = map extra_data (committed d)"
proof (cases "get_by_id d tid")
  case (Inl e)
  then show ?thesis by (simp add: update_def session_db_def)
next
  case (Inr found)
  show ?thesis
  proof (cases found)
    case None
    with Inr show ?thesis by (simp add: update_def session_db_def)
  next
    case (Some t)
    with Inr have one: "filter (\<lambda>r. taxpayer_id r = tid) (taxpayers d) = [t]"
      using scalar_one_or_none_Some by (simp add: get_by_id_def)
    then have "t \<in> set (filter (\<lambda>r. taxpayer_id r = tid) (taxpayers d))" by simp
    then have tid: "taxpayer_id t = tid" by simp
    show ?thesis
    proof (cases "check_permissions t u ''update''")
      case (Inl e)
      with Inr Some show ?thesis by (simp add: update_def session_db_def)
    next
      case ok: (Inr x)
      show ?thesis
      proof (cases "metadata t")
        case Registry
        with Inr Some ok show ?thesis by (simp add: update_def session_db_def)
      next
        case (Attr m)
        show ?thesis
        proof (cases "merge_metadata t m p")
          case (Inl e)
          with Inr Some ok Attr show ?thesis by (simp add: update_def session_db_def)
        next
          case mm: (Inr pr)
          obtain tm p' where pr: "pr = (tm, p')" by (cases pr)
          let ?t' = "(set_fields tm p')\<lparr>updated_by := Some (uid u)\<rparr>"
          from mm pr have e: "extra_data ?t' = extra_data t" and i: "taxpayer_id ?t' = tid"
            using merge_metadata_extra_data [of t m p tm p'] tid
            by (simp_all add: set_fields_extra_data set_fields_id)
          from one i have "filter (\<lambda>r. taxpayer_id r = taxpayer_id ?t') (taxpayers d) = [t]"
            by simp
          from store_row_extra_data [OF this e] clean
          have "map extra_data (store_row ?t' (taxpayers d)) = map extra_data (committed d)"
            by simp
          with Inr Some ok Attr mm pr show ?thesis
            by (simp add: update_def Let_def commit_def log_action_def rollback_def session_db_def)
        qed
      qed
    qed
  qed
qed

text \<open>
  C4 fails on the code. The stored taxpayer 1 has the extension map \<^verbatim>\<open>{a: 1}\<close> in its
  \<^verbatim>\<open>extra_data\<close> column; an ADMIN patches it with the map \<^verbatim>\<open>{b: 2}\<close>. On the row as a
  session loads it the update raises at line 130 and nothing is written. On an object
  that carries the map \<^verbatim>\<open>{a: 1}\<close> in a \<^verbatim>\<open>metadata\<close> attribute the update succeeds and merges
  the patch into that attribute, which is not a column of the model. In both cases the
  stored extension map is still \<^verbatim>\<open>{a: 1}\<close>.
\<close>

theorem update_extension_map_unchanged:
  "u_metadata patch_b = Some (Some [(''b'', JInt 2)])
 \<and> get_by_id sample_db 1 = Inr (Some (sample_row 1 (Some ''1234567890'') (Some 1)))
 \<and> extra_data (sample_row 1 (Some ''1234567890'') (Some 1)) = [(''a'', JInt 1)]
 \<and> fst (update sample_db 1 patch_b admin_user) = Inl AttributeError
 \<and> committed (snd (update_taxpayer sample_db 1 patch_b admin_user)) = sample_rows
 \<and> get_by_id in_session_db 1 = Inr (Some in_session_row)
 \<and> extra_data in_session_row = [(''a'', JInt 1)]
 \<and> fst (update in_session_db 1 patch_b admin_user) =
     Inr (in_session_row\<lparr>metadata := Attr (Some [(''a'', JInt 1), (''b'', JInt 2)]),
                         updated_by := Some 100\<rparr>)
 \<and> get_by_id (session_db (snd (update in_session_db 1 patch_b admin_user))) 1 =
     Inr (Some (in_session_row\<lparr>metadata := Attr (Some [(''a'', JInt 1), (''b'', JInt 2)]),
                               updated_by := Some 100\<rparr>))
 \<and> extra_data (in_session_row\<lparr>metadata := Attr (Some [(''a'', JInt 1), (''b'', JInt 2)]),
                               updated_by := Some 100\<rparr>)
     = [(''a'', JInt 1)]
 \<and> map extra_data (committed (snd (update_taxpayer in_session_db 1 patch_b admin_user)))
     = [[(''a'', JInt 1)], [(''a'', JInt 1)], [(''a'', JInt 1)]]"
  by (simp add: update_def update_taxpayer_def check_permissions_def merge_metadata_def
        set_fields_def dict_update_def service_defs Let_def sample_defs)

end
